theory Spec2Isabelle
  imports Complex_Main "HOL-Library.Sublist"
begin

section \<open>Python text and bytes\<close>

text \<open>
  The driver is the class \<open>Monochromator\<close> of \<open>monochromator.ipynb\<close>. It talks to the
  device through a \<open>serial.Serial\<close> object of the pyserial library.

  A Python \<open>str\<close> is a sequence of Unicode code points, a \<open>bytes\<close> object a sequence of
  8-bit values. Code points are natural numbers here and bytes are \<^typ>\<open>char\<close>, so that
  what goes over the wire can be written as a literal.
\<close>

type_synonym pystr = "nat list"
type_synonym bytes = "char list"

definition lit :: "string \<Rightarrow> pystr" where
  \<comment> \<open>An ASCII string literal of the source, as code points.\<close>
  "lit s = map of_char s"

text \<open>The exceptions that the modelled code and the library calls it makes can raise.\<close>

datatype error =
    IndexError
  | AttributeError
  | ValueError
  | UnicodeEncodeError
  | UnicodeDecodeError
  | PortNotOpenError
  | SerialException

subsection \<open>\<open>str.upper\<close>\<close>

text \<open>
  \<open>str.upper\<close> replaces every character by its full upper-case mapping, which can be
  several characters, and looks at no context. On ASCII the mapping is fixed; beyond
  ASCII it is the table of the Unicode database, the parameter \<open>U\<close>.
\<close>

definition upper_cp :: "(nat \<Rightarrow> pystr) \<Rightarrow> nat \<Rightarrow> pystr" where
  "upper_cp U c =
     (if 97 \<le> c \<and> c \<le> 122 then [c - 32] else if c < 128 then [c] else U c)"

definition upper :: "(nat \<Rightarrow> pystr) \<Rightarrow> pystr \<Rightarrow> pystr" where
  "upper U s = concat (map (upper_cp U) s)"

subsection \<open>\<open>str.rstrip\<close>\<close>

text \<open>\<open>str.isspace\<close> on one character: the white space of the Unicode database.\<close>

definition isspace :: "nat \<Rightarrow> bool" where
  "isspace c =
     ((9 \<le> c \<and> c \<le> 13) \<or> (28 \<le> c \<and> c \<le> 32) \<or> c = 0x85 \<or> c = 0xA0 \<or> c = 0x1680
      \<or> (0x2000 \<le> c \<and> c \<le> 0x200A) \<or> c = 0x2028 \<or> c = 0x2029 \<or> c = 0x202F
      \<or> c = 0x205F \<or> c = 0x3000)"

definition rstrip :: "pystr \<Rightarrow> pystr" where
  "rstrip s = rev (dropWhile isspace (rev s))"

subsection \<open>\<open>str.join\<close>, \<open>str.split\<close>, \<open>str\<close> of an integer\<close>

fun join :: "pystr \<Rightarrow> pystr list \<Rightarrow> pystr" where
  "join sep [] = []"
| "join sep [x] = x"
| "join sep (x # y # ys) = x @ sep @ join sep (y # ys)"

fun split_acc :: "nat \<Rightarrow> pystr \<Rightarrow> pystr \<Rightarrow> pystr list" where
  "split_acc sep cur [] = [cur]"
| "split_acc sep cur (c # cs) =
     (if c = sep then cur # split_acc sep [] cs else split_acc sep (cur @ [c]) cs)"

definition split_on :: "nat \<Rightarrow> pystr \<Rightarrow> pystr list" where
  \<comment> \<open>\<open>s.split(sep)\<close> for a separator of one character.\<close>
  "split_on sep s = split_acc sep [] s"

fun digits :: "nat \<Rightarrow> pystr" where
  "digits n = (if n < 10 then [48 + n] else digits (n div 10) @ [48 + n mod 10])"

declare digits.simps [simp del]

definition str_int :: "int \<Rightarrow> pystr" where
  "str_int i = (if i < 0 then 45 # digits (nat (- i)) else digits (nat i))"

subsection \<open>UTF-8\<close>

text \<open>
  \<open>str.encode('utf-8')\<close> raises \<open>UnicodeEncodeError\<close> on a surrogate (\<open>None\<close> here).
  A code point of a Python string is below \<open>0x110000\<close>.
\<close>

definition utf8_cp :: "nat \<Rightarrow> bytes option" where
  "utf8_cp c =
     (if c < 0x80 then Some [char_of c]
      else if c < 0x800 then Some [char_of (0xC0 + c div 64), char_of (0x80 + c mod 64)]
      else if 0xD800 \<le> c \<and> c < 0xE000 then None
      else if c < 0x10000 then
        Some [char_of (0xE0 + c div 4096), char_of (0x80 + c div 64 mod 64),
              char_of (0x80 + c mod 64)]
      else if c < 0x110000 then
        Some [char_of (0xF0 + c div 262144), char_of (0x80 + c div 4096 mod 64),
              char_of (0x80 + c div 64 mod 64), char_of (0x80 + c mod 64)]
      else None)"

fun utf8_encode :: "pystr \<Rightarrow> bytes option" where
  "utf8_encode [] = Some []"
| "utf8_encode (c # cs) =
     (case utf8_cp c of
        None \<Rightarrow> None
      | Some b \<Rightarrow> (case utf8_encode cs of None \<Rightarrow> None | Some bs \<Rightarrow> Some (b @ bs)))"

text \<open>
  \<open>bytes.decode('utf-8')\<close> is strict: it raises \<open>UnicodeDecodeError\<close> (\<open>None\<close> here) on a
  byte that starts no sequence, a missing or wrong continuation byte, an overlong form, a
  surrogate and a value above \<open>0x10FFFF\<close>.
\<close>

definition is_cont :: "nat \<Rightarrow> bool" where
  "is_cont b = (0x80 \<le> b \<and> b \<le> 0xBF)"

definition second_ok :: "nat \<Rightarrow> nat \<Rightarrow> bool" where
  \<comment> \<open>The range of the second byte after the lead byte \<open>b\<close> of a longer sequence.\<close>
  "second_ok b c =
     (if b = 0xE0 then 0xA0 \<le> c \<and> c \<le> 0xBF
      else if b = 0xED then 0x80 \<le> c \<and> c \<le> 0x9F
      else if b = 0xF0 then 0x90 \<le> c \<and> c \<le> 0xBF
      else if b = 0xF4 then 0x80 \<le> c \<and> c \<le> 0x8F
      else is_cont c)"

fun utf8_dec :: "nat list \<Rightarrow> pystr option" where
  "utf8_dec [] = Some []"
| "utf8_dec (b # bs) =
     (if b < 0x80 then
        (case utf8_dec bs of None \<Rightarrow> None | Some s \<Rightarrow> Some (b # s))
      else if 0xC2 \<le> b \<and> b \<le> 0xDF then
        (case bs of
           c1 # r \<Rightarrow>
             if is_cont c1 then
               (case utf8_dec r of
                  None \<Rightarrow> None
                | Some s \<Rightarrow> Some (((b - 0xC0) * 64 + (c1 - 0x80)) # s))
             else None
         | _ \<Rightarrow> None)
      else if 0xE0 \<le> b \<and> b \<le> 0xEF then
        (case bs of
           c1 # c2 # r \<Rightarrow>
             if second_ok b c1 \<and> is_cont c2 then
               (case utf8_dec r of
                  None \<Rightarrow> None
                | Some s \<Rightarrow>
                    Some (((b - 0xE0) * 4096 + (c1 - 0x80) * 64 + (c2 - 0x80)) # s))
             else None
         | _ \<Rightarrow> None)
      else if 0xF0 \<le> b \<and> b \<le> 0xF4 then
        (case bs of
           c1 # c2 # c3 # r \<Rightarrow>
             if second_ok b c1 \<and> is_cont c2 \<and> is_cont c3 then
               (case utf8_dec r of
                  None \<Rightarrow> None
                | Some s \<Rightarrow>
                    Some (((b - 0xF0) * 262144 + (c1 - 0x80) * 4096 + (c2 - 0x80) * 64
                           + (c3 - 0x80)) # s))
             else None
         | _ \<Rightarrow> None)
      else None)"

definition utf8_decode :: "bytes \<Rightarrow> pystr option" where
  "utf8_decode bs = utf8_dec (map of_char bs)"

section \<open>The serial port\<close>

text \<open>
  The transport is pyserial's \<open>serial.Serial\<close>, which is not part of the repository. Its
  documented behaviour is modelled as far as the driver uses it.

  The serial line delivers a sequence of events: a byte that arrives in time, or the
  expiry of the read deadline. When the sequence is used up, nothing arrives any more and
  every read runs into its deadline. The model covers a finite timeout, as the driver's
  default of 5 seconds is, and a device that stays attached: the \<open>SerialException\<close> that
  pyserial raises from a read or a write when the device goes away is not modelled.
\<close>

datatype rx_event = Rx char | Expire

text \<open>
  A method call made on the port object. The field \<open>calls\<close> of the port records every
  call in order, also one that raises; it exists to count and order what the driver asks
  of the transport. The field \<open>tx\<close> holds the bytes that were put on the wire.
\<close>

datatype call = Open | Close | Write bytes | ReadUntil bytes

record serial =
  portname :: pystr
  timeout :: real
  is_open :: bool
  calls :: "call list"
  tx :: bytes
  rx :: "rx_event list"

record device =
  present :: bool
  incoming :: "rx_event list"

definition Serial :: "pystr \<Rightarrow> real \<Rightarrow> device \<Rightarrow> error + serial" where
  \<comment> \<open>\<open>serial.Serial(port, timeout = timeout)\<close> opens the port at once, and raises
      \<open>SerialException\<close> when the port cannot be opened.\<close>
  "Serial p t dev =
     (if present dev then
        Inr \<lparr>portname = p, timeout = t, is_open = True, calls = [Open], tx = [],
             rx = incoming dev\<rparr>
      else Inl SerialException)"

definition serial_open :: "serial \<Rightarrow> (error + unit) \<times> serial" where
  \<comment> \<open>\<open>Serial.open()\<close> raises \<open>SerialException\<close> on a port that is open already. It
      also discards input that was received and not read, which the line of events here
      does not tell from input still to come: \<open>rx\<close> is left as it is.\<close>
  "serial_open s =
     (if is_open s then (Inl SerialException, s\<lparr>calls := calls s @ [Open]\<rparr>)
      else (Inr (), s\<lparr>calls := calls s @ [Open], is_open := True\<rparr>))"

definition serial_close :: "serial \<Rightarrow> serial" where
  \<comment> \<open>\<open>Serial.close()\<close> never raises; a closed port stays closed.\<close>
  "serial_close s = s\<lparr>calls := calls s @ [Close], is_open := False\<rparr>"

definition serial_write :: "bytes \<Rightarrow> serial \<Rightarrow> (error + nat) \<times> serial" where
  \<comment> \<open>\<open>Serial.write(data)\<close> returns the number of bytes written.\<close>
  "serial_write data s =
     (if is_open s then
        (Inr (length data), s\<lparr>calls := calls s @ [Write data], tx := tx s @ data\<rparr>)
      else (Inl PortNotOpenError, s\<lparr>calls := calls s @ [Write data]\<rparr>))"

definition ends_with :: "bytes \<Rightarrow> bytes \<Rightarrow> bool" where
  \<comment> \<open>\<open>line[-len(expected):] == expected\<close>\<close>
  "ends_with line expected =
     ((if length expected = 0 then line else drop (length line - length expected) line)
      = expected)"

fun read_loop :: "bytes \<Rightarrow> bytes \<Rightarrow> rx_event list \<Rightarrow> bytes \<times> rx_event list" where
  "read_loop expected line [] = (line, [])"
| "read_loop expected line (Expire # rest) = (line, rest)"
| "read_loop expected line (Rx b # rest) =
     (if ends_with (line @ [b]) expected then (line @ [b], rest)
      else read_loop expected (line @ [b]) rest)"

definition serial_read_until :: "bytes \<Rightarrow> serial \<Rightarrow> (error + bytes) \<times> serial" where
  \<comment> \<open>\<open>Serial.read_until(expected)\<close> reads byte by byte until the line read ends with
      \<open>expected\<close> or the deadline expires, and returns what it has read in both cases.\<close>
  "serial_read_until expected s =
     (if is_open s then
        (case read_loop expected [] (rx s) of
           (line, rest) \<Rightarrow>
             (Inr line, s\<lparr>calls := calls s @ [ReadUntil expected], rx := rest\<rparr>))
      else (Inl PortNotOpenError, s\<lparr>calls := calls s @ [ReadUntil expected]\<rparr>))"

section \<open>The driver\<close>

text \<open>
  The attributes \<open>term_chars\<close> and \<open>encoding\<close> are assigned in \<open>__init__\<close> and nowhere
  else; they are constants here, and the encoding \<open>'utf-8'\<close> is the pair
  \<^const>\<open>utf8_encode\<close>, \<^const>\<open>utf8_decode\<close>. A method takes the driver and returns its
  result, or the exception it raises, together with the driver after the call. The
  function \<open>init\<close> is \<open>__init__\<close> and \<open>del\<close> is \<open>__del__\<close>.
\<close>

definition term_chars :: pystr where
  "term_chars = [13, 10]"

definition crlf :: bytes where
  \<comment> \<open>\<open>term_chars.encode(encoding)\<close>\<close>
  "crlf = [CHR 0x0D, CHR 0x0A]"

record monochromator =
  port :: pystr
  com :: serial

record Response =
  statement :: pystr
  response :: pystr

definition init :: "pystr \<Rightarrow> real \<Rightarrow> device \<Rightarrow> error + monochromator" where
  "init p t dev =
     (case Serial p t dev of Inl e \<Rightarrow> Inl e | Inr c \<Rightarrow> Inr \<lparr>port = p, com = c\<rparr>)"

definition del :: "monochromator \<Rightarrow> monochromator" where
  "del m = m\<lparr>com := serial_close (com m)\<rparr>"

subsection \<open>Low level methods\<close>

definition connect :: "monochromator \<Rightarrow> (error + unit) \<times> monochromator" where
  "connect m = (case serial_open (com m) of (r, c) \<Rightarrow> (r, m\<lparr>com := c\<rparr>))"

definition disconnect :: "monochromator \<Rightarrow> monochromator" where
  "disconnect m = m\<lparr>com := serial_close (com m)\<rparr>"

definition frame :: "(nat \<Rightarrow> pystr) \<Rightarrow> pystr \<Rightarrow> bytes option" where
  \<comment> \<open>The first three statements of \<open>write\<close>: what is handed to the port.\<close>
  "frame U msg = utf8_encode (upper U (msg @ term_chars))"

definition write_msg :: "(nat \<Rightarrow> pystr) \<Rightarrow> pystr \<Rightarrow> monochromator
    \<Rightarrow> (error + nat) \<times> monochromator" where
  \<comment> \<open>The method \<open>write\<close>.\<close>
  "write_msg U msg m =
     (case frame U msg of
        None \<Rightarrow> (Inl UnicodeEncodeError, m)
      | Some data \<Rightarrow> (case serial_write data (com m) of (r, c) \<Rightarrow> (r, m\<lparr>com := c\<rparr>)))"

definition read :: "monochromator \<Rightarrow> (error + pystr) \<times> monochromator" where
  "read m =
     (case utf8_encode term_chars of
        None \<Rightarrow> (Inl UnicodeEncodeError, m)
      | Some expected \<Rightarrow>
          (case serial_read_until expected (com m) of
             (Inl e, c) \<Rightarrow> (Inl e, m\<lparr>com := c\<rparr>)
           | (Inr resp, c) \<Rightarrow>
               (case utf8_decode resp of
                  None \<Rightarrow> (Inl UnicodeDecodeError, m\<lparr>com := c\<rparr>)
                | Some s \<Rightarrow> (Inr s, m\<lparr>com := c\<rparr>))))"

definition command_message :: "('a \<Rightarrow> pystr) \<Rightarrow> pystr \<Rightarrow> 'a list \<Rightarrow> pystr" where
  \<comment> \<open>The first two statements of \<open>command\<close>; \<open>str_of\<close> is Python's \<open>str\<close> on the type
      of the arguments.\<close>
  "command_message str_of cmd args = cmd @ lit '' '' @ join (lit '' '') (map str_of args)"

definition command :: "(nat \<Rightarrow> pystr) \<Rightarrow> ('a \<Rightarrow> pystr) \<Rightarrow> pystr \<Rightarrow> 'a list \<Rightarrow> monochromator
    \<Rightarrow> (error + pystr) \<times> monochromator" where
  "command U str_of cmd args m =
     (case write_msg U (command_message str_of cmd args) m of
        (Inl e, m1) \<Rightarrow> (Inl e, m1)
      | (Inr n, m1) \<Rightarrow>
          (case read m1 of
             (Inl e, m2) \<Rightarrow> (Inl e, m2)
           | (Inr s, m2) \<Rightarrow> (Inr (rstrip s), m2)))"

definition qmark :: "pystr \<Rightarrow> pystr" where
  \<comment> \<open>The conditional at the head of \<open>query\<close>, on a message that is not empty.\<close>
  "qmark msg = (if last msg \<noteq> 63 then msg @ lit ''?'' else msg)"

definition query :: "(nat \<Rightarrow> pystr) \<Rightarrow> pystr \<Rightarrow> monochromator
    \<Rightarrow> (error + Response) \<times> monochromator" where
  \<comment> \<open>\<open>msg[-1]\<close> raises \<open>IndexError\<close> on the empty string.\<close>
  "query U msg m =
     (if msg = [] then (Inl IndexError, m)
      else
        (case write_msg U (qmark msg) m of
           (Inl e, m1) \<Rightarrow> (Inl e, m1)
         | (Inr n, m1) \<Rightarrow>
             (case read m1 of
                (Inl e, m2) \<Rightarrow> (Inl e, m2)
              | (Inr s1, m2) \<Rightarrow>
                  (case read m2 of
                     (Inl e, m3) \<Rightarrow> (Inl e, m3)
                   | (Inr s2, m3) \<Rightarrow>
                       (Inr \<lparr>statement = rstrip s1, response = rstrip s2\<rparr>, m3)))))"

subsection \<open>High level methods\<close>

text \<open>
  The built-in functions \<open>float\<close>, \<open>int\<close> and the format \<open>'{:.3f}'\<close> are parameters
  (\<open>py_float\<close>, \<open>py_int\<close>, \<open>fmt3f\<close>): \<open>None\<close> stands for the \<open>ValueError\<close> of a string
  that does not parse. Grating, port and slit numbers and slit widths are Python integers.
  A string argument is its own \<open>str\<close>.
\<close>

definition info :: "(nat \<Rightarrow> pystr) \<Rightarrow> monochromator \<Rightarrow> (error + pystr) \<times> monochromator" where
  "info U m =
     (case query U (lit ''info'') m of
        (Inl e, m1) \<Rightarrow> (Inl e, m1)
      | (Inr resp, m1) \<Rightarrow> (Inr (response resp), m1))"

definition position :: "(nat \<Rightarrow> pystr) \<Rightarrow> (pystr \<Rightarrow> 'f option) \<Rightarrow> monochromator
    \<Rightarrow> (error + 'f) \<times> monochromator" where
  "position U py_float m =
     (case query U (lit ''wave'') m of
        (Inl e, m1) \<Rightarrow> (Inl e, m1)
      | (Inr resp, m1) \<Rightarrow>
          (case py_float (response resp) of
             None \<Rightarrow> (Inl ValueError, m1)
           | Some x \<Rightarrow> (Inr x, m1)))"

definition goto :: "(nat \<Rightarrow> pystr) \<Rightarrow> ('f \<Rightarrow> pystr) \<Rightarrow> (pystr \<Rightarrow> 'f option) \<Rightarrow> 'f
    \<Rightarrow> monochromator \<Rightarrow> (error + 'f) \<times> monochromator" where
  "goto U fmt3f py_float wavelength m =
     (case command U id (lit ''gowave'') [fmt3f wavelength] m of
        (Inl e, m1) \<Rightarrow> (Inl e, m1)
      | (Inr sent, m1) \<Rightarrow> position U py_float m1)"

definition abort :: "(nat \<Rightarrow> pystr) \<Rightarrow> monochromator \<Rightarrow> (error + unit) \<times> monochromator" where
  "abort U m =
     (case command U id (lit ''abort'') [] m of
        (Inl e, m1) \<Rightarrow> (Inl e, m1)
      | (Inr sent, m1) \<Rightarrow> (Inr (), m1))"

text \<open>
  \<open>grating\<close> looks up the attribute \<open>split\<close> on what \<open>query\<close> returned. A string has it; the
  named tuple \<open>Response\<close> has not, and the lookup raises \<open>AttributeError\<close>. An index out
  of range raises \<open>IndexError\<close>. The dictionary returned is a list of keys and values.
\<close>

datatype pyobj = PyStr pystr | PyResponse Response

definition split_of :: "pyobj \<Rightarrow> nat \<Rightarrow> error + pystr list" where
  \<comment> \<open>\<open>obj.split(sep)\<close>\<close>
  "split_of obj sep =
     (case obj of PyStr s \<Rightarrow> Inr (split_on sep s) | PyResponse r \<Rightarrow> Inl AttributeError)"

definition item :: "'a list \<Rightarrow> nat \<Rightarrow> error + 'a" where
  \<comment> \<open>\<open>xs[i]\<close> for an index that is not negative\<close>
  "item xs i = (if i < length xs then Inr (xs ! i) else Inl IndexError)"

definition grating :: "(nat \<Rightarrow> pystr) \<Rightarrow> monochromator
    \<Rightarrow> (error + (string \<times> pystr) list) \<times> monochromator" where
  "grating U m =
     (case query U (lit ''grat'') m of
        (Inl e, m1) \<Rightarrow> (Inl e, m1)
      | (Inr r, m1) \<Rightarrow>
          (case split_of (PyResponse r) 44 of
             Inl e \<Rightarrow> (Inl e, m1)
           | Inr resp \<Rightarrow>
               (case item resp 0 of
                  Inl e \<Rightarrow> (Inl e, m1)
                | Inr n \<Rightarrow>
                    (case item resp 1 of
                       Inl e \<Rightarrow> (Inl e, m1)
                     | Inr l \<Rightarrow>
                         (case item resp 2 of
                            Inl e \<Rightarrow> (Inl e, m1)
                          | Inr b \<Rightarrow>
                              (Inr [(''number'', n), (''lines'', l), (''label'', b)],
                               m1))))))"

definition set_grating :: "(nat \<Rightarrow> pystr) \<Rightarrow> int \<Rightarrow> monochromator
    \<Rightarrow> (error + unit) \<times> monochromator" where
  "set_grating U g m =
     (case command U id (lit ''grat'') [str_int g] m of
        (Inl e, m1) \<Rightarrow> (Inl e, m1)
      | (Inr sent, m1) \<Rightarrow> (Inr (), m1))"

definition shuttered :: "(nat \<Rightarrow> pystr) \<Rightarrow> monochromator \<Rightarrow> (error + bool) \<times> monochromator" where
  "shuttered U m =
     (case query U (lit ''shutter'') m of
        (Inl e, m1) \<Rightarrow> (Inl e, m1)
      | (Inr resp, m1) \<Rightarrow> (Inr (response resp = lit ''C''), m1))"

definition shutter :: "(nat \<Rightarrow> pystr) \<Rightarrow> bool \<Rightarrow> monochromator
    \<Rightarrow> (error + unit) \<times> monochromator" where
  "shutter U close m =
     (case command U id (lit ''shutter'') [if close then lit ''C'' else lit ''O''] m of
        (Inl e, m1) \<Rightarrow> (Inl e, m1)
      | (Inr sent, m1) \<Rightarrow> (Inr (), m1))"

definition outport :: "(nat \<Rightarrow> pystr) \<Rightarrow> (pystr \<Rightarrow> int option) \<Rightarrow> monochromator
    \<Rightarrow> (error + int) \<times> monochromator" where
  "outport U py_int m =
     (case query U (lit ''outport'') m of
        (Inl e, m1) \<Rightarrow> (Inl e, m1)
      | (Inr resp, m1) \<Rightarrow>
          (case py_int (response resp) of
             None \<Rightarrow> (Inl ValueError, m1)
           | Some n \<Rightarrow> (Inr n, m1)))"

definition set_outport :: "(nat \<Rightarrow> pystr) \<Rightarrow> int \<Rightarrow> monochromator
    \<Rightarrow> (error + unit) \<times> monochromator" where
  "set_outport U p m =
     (case command U id (lit ''outport'') [str_int p] m of
        (Inl e, m1) \<Rightarrow> (Inl e, m1)
      | (Inr sent, m1) \<Rightarrow> (Inr (), m1))"

definition slit_query :: "(nat \<Rightarrow> pystr) \<Rightarrow> (pystr \<Rightarrow> int option) \<Rightarrow> pystr \<Rightarrow> monochromator
    \<Rightarrow> (error + int) \<times> monochromator" where
  \<comment> \<open>The last two statements of \<open>slit_width\<close>.\<close>
  "slit_query U py_int cmd m =
     (case query U cmd m of
        (Inl e, m1) \<Rightarrow> (Inl e, m1)
      | (Inr resp, m1) \<Rightarrow>
          (case py_int (response resp) of
             None \<Rightarrow> (Inl ValueError, m1)
           | Some n \<Rightarrow> (Inr n, m1)))"

definition slit_width :: "(nat \<Rightarrow> pystr) \<Rightarrow> (pystr \<Rightarrow> int option) \<Rightarrow> int \<Rightarrow> int option
    \<Rightarrow> monochromator \<Rightarrow> (error + int) \<times> monochromator" where
  "slit_width U py_int slit width m =
     (case width of
        None \<Rightarrow> slit_query U py_int (lit ''slit'' @ str_int slit @ lit ''microns'') m
      | Some w \<Rightarrow>
          (case command U id (lit ''slit'' @ str_int slit @ lit ''microns'') [str_int w] m of
             (Inl e, m1) \<Rightarrow> (Inl e, m1)
           | (Inr sent, m1) \<Rightarrow>
               slit_query U py_int (lit ''slit'' @ str_int slit @ lit ''microns'') m1))"

section \<open>Vocabulary of the properties\<close>

definition ascii :: "pystr \<Rightarrow> bool" where
  \<comment> \<open>\<open>str.isascii\<close>\<close>
  "ascii s = list_all (\<lambda>c. c < 128) s"

definition ascii_bytes :: "pystr \<Rightarrow> bytes" where
  \<comment> \<open>The bytes of an ASCII string: one byte for each character.\<close>
  "ascii_bytes s = map char_of s"

definition refused :: "monochromator \<Rightarrow> bytes \<Rightarrow> (error + 'a) \<times> monochromator" where
  \<comment> \<open>The outcome of a method called on the driver \<open>m\<close> that raises the port's
      \<open>PortNotOpenError\<close> after one call on the port, the write of \<open>data\<close>, with nothing
      else changed.\<close>
  "refused m data =
     (Inl PortNotOpenError, m\<lparr>com := (com m)\<lparr>calls := calls (com m) @ [Write data]\<rparr>\<rparr>)"

text \<open>
  What a read that starts now receives before its deadline when no terminator comes, and
  what is left on the line after that deadline.
\<close>

fun pending :: "rx_event list \<Rightarrow> bytes" where
  "pending [] = []"
| "pending (Expire # evs) = []"
| "pending (Rx b # evs) = b # pending evs"

fun after_expiry :: "rx_event list \<Rightarrow> rx_event list" where
  "after_expiry [] = []"
| "after_expiry (Expire # evs) = evs"
| "after_expiry (Rx b # evs) = after_expiry evs"

definition spec_command_message :: "('a \<Rightarrow> pystr) \<Rightarrow> pystr \<Rightarrow> 'a list \<Rightarrow> pystr" where
  \<comment> \<open>The message of a command as the specification words it: the name and the string
      form of each argument, joined with single spaces.\<close>
  "spec_command_message str_of name args = join (lit '' '') (name # map str_of args)"

text \<open>
  A driver as the notebook makes it, \<open>Monochromator('COM9', timeout = 3)\<close>, on a line
  that will deliver the bytes \<open>bs\<close> and then stay silent.
\<close>

definition session :: "bytes \<Rightarrow> monochromator" where
  "session bs =
     \<lparr>port = lit ''COM9'',
      com = \<lparr>portname = lit ''COM9'', timeout = 3, is_open = True, calls = [Open], tx = [],
             rx = map Rx bs\<rparr>\<rparr>"

definition ident :: "nat \<Rightarrow> pystr" where
  \<comment> \<open>An upper-case table that leaves every character beyond ASCII as it is.\<close>
  "ident c = [c]"

section \<open>Framing\<close>

lemma upper_append: "upper U (a @ b) = upper U a @ upper U b"
  by (simp add: upper_def)

lemma utf8_encode_append:
  "utf8_encode (a @ b) =
     (case utf8_encode a of
        None \<Rightarrow> None
      | Some x \<Rightarrow> (case utf8_encode b of None \<Rightarrow> None | Some y \<Rightarrow> Some (x @ y)))"
  by (induction a) (auto split: option.splits)

lemma upper_term_chars: "upper U term_chars = term_chars"
  by (simp add: upper_def upper_cp_def term_chars_def)

lemma utf8_encode_term_chars: "utf8_encode term_chars = Some crlf"
  by (simp add: term_chars_def crlf_def utf8_cp_def char_of_eq_iff)

lemma frame_eq:
  "frame U msg =
     (case utf8_encode (upper U msg) of None \<Rightarrow> None | Some bs \<Rightarrow> Some (bs @ crlf))"
  by (simp add: frame_def upper_append utf8_encode_append upper_term_chars
      utf8_encode_term_chars split: option.splits)

lemma write_msg_open:
  "is_open (com m) \<Longrightarrow> frame U msg = Some data \<Longrightarrow>
   write_msg U msg m =
     (Inr (length data),
      m\<lparr>com := (com m)\<lparr>calls := calls (com m) @ [Write data], tx := tx (com m) @ data\<rparr>\<rparr>)"
  by (simp add: write_msg_def serial_write_def)

lemma write_msg_closed:
  "\<not> is_open (com m) \<Longrightarrow> frame U msg = Some data \<Longrightarrow>
   write_msg U msg m =
     (Inl PortNotOpenError, m\<lparr>com := (com m)\<lparr>calls := calls (com m) @ [Write data]\<rparr>\<rparr>)"
  by (simp add: write_msg_def serial_write_def)

text \<open>Unfolding these evaluates the driver on a concrete session.\<close>

lemmas eval_simps = lit_def qmark_def frame_eq upper_def upper_cp_def utf8_cp_def crlf_def
  ends_with_def utf8_decode_def rstrip_def isspace_def char_of_eq_iff session_def ident_def

text \<open>
  C2. For every command string \<open>s\<close>, \<open>write\<close> hands to the port the UTF-8 bytes of the
  upper-cased \<open>s\<close> followed by the two bytes of the terminator, carriage return and line
  feed, and returns the number of bytes that the port reports as written, which is the
  length of that frame. The port takes the frame when it is open and raises otherwise;
  a string that has no UTF-8 encoding raises before the port is called.
\<close>

theorem write_sends_frame:
  "write_msg U s m =
     (case utf8_encode (upper U s) of
        None \<Rightarrow> (Inl UnicodeEncodeError, m)
      | Some bs \<Rightarrow>
          if is_open (com m) then
            (Inr (length (bs @ crlf)),
             m\<lparr>com := (com m)\<lparr>calls := calls (com m) @ [Write (bs @ crlf)],
                               tx := tx (com m) @ bs @ crlf\<rparr>\<rparr>)
          else
            (Inl PortNotOpenError,
             m\<lparr>com := (com m)\<lparr>calls := calls (com m) @ [Write (bs @ crlf)]\<rparr>\<rparr>))"
  by (simp add: write_msg_def frame_eq serial_write_def split: option.splits)

theorem write_sends_frame_witness:
  "write_msg ident (lit ''gowave 600.000'') (session []) =
     (Inr 16,
      (session [])\<lparr>com := (com (session []))
         \<lparr>calls := [Open, Write (''GOWAVE 600.000'' @ crlf)],
          tx := ''GOWAVE 600.000'' @ crlf\<rparr>\<rparr>)"
  using write_sends_frame [of ident "lit ''gowave 600.000''" "session []"]
  by (simp add: eval_simps)

section \<open>Reading a line\<close>

lemma read_open:
  "is_open (com m) \<Longrightarrow> read_loop crlf [] (rx (com m)) = (line, rest) \<Longrightarrow>
   read m =
     ((case utf8_decode line of None \<Rightarrow> Inl UnicodeDecodeError | Some s \<Rightarrow> Inr s),
      m\<lparr>com := (com m)\<lparr>calls := calls (com m) @ [ReadUntil crlf], rx := rest\<rparr>\<rparr>)"
  by (simp add: read_def utf8_encode_term_chars serial_read_until_def split: option.splits)

lemma read_closed:
  "\<not> is_open (com m) \<Longrightarrow>
   read m =
     (Inl PortNotOpenError, m\<lparr>com := (com m)\<lparr>calls := calls (com m) @ [ReadUntil crlf]\<rparr>\<rparr>)"
  by (simp add: read_def utf8_encode_term_chars serial_read_until_def)

lemma ends_with_sublist:
  assumes "ends_with line expected" and "expected \<noteq> []"
  shows "sublist expected (line @ rest)"
proof -
  from assms have "drop (length line - length expected) line = expected"
    by (simp add: ends_with_def)
  then have "line = take (length line - length expected) line @ expected"
    by (metis append_take_drop_id)
  then have "line @ rest = take (length line - length expected) line @ expected @ rest"
    by (metis append_assoc)
  then show ?thesis
    unfolding sublist_def by blast
qed

lemma read_loop_timeout:
  "expected \<noteq> [] \<Longrightarrow> \<not> sublist expected (line @ pending evs) \<Longrightarrow>
   read_loop expected line evs = (line @ pending evs, after_expiry evs)"
proof (induction evs arbitrary: line)
  case Nil
  then show ?case by simp
next
  case (Cons ev evs)
  show ?case
  proof (cases ev)
    case (Rx b)
    with Cons.prems have no: "\<not> sublist expected ((line @ [b]) @ pending evs)"
      by simp
    with Cons.prems(1) have "\<not> ends_with (line @ [b]) expected"
      using ends_with_sublist by blast
    with Rx Cons.IH [OF Cons.prems(1) no] show ?thesis
      by simp
  next
    case Expire
    then show ?thesis by simp
  qed
qed

text \<open>
  C9, as the code has it. When the terminator does not come before the deadline, \<open>read\<close>
  raises no timeout error. On an open port it returns what was received until then,
  decoded, as an ordinary result; this can be part of a line or the empty string. When
  those bytes are not UTF-8 the decoding raises \<open>UnicodeDecodeError\<close>, and on a closed
  port the read is refused with \<open>PortNotOpenError\<close>.
\<close>

theorem read_without_terminator:
  assumes "\<not> sublist crlf (pending (rx (com m)))"
  shows "read m =
     (if is_open (com m) then
        ((case utf8_decode (pending (rx (com m))) of
            None \<Rightarrow> Inl UnicodeDecodeError
          | Some s \<Rightarrow> Inr s),
         m\<lparr>com := (com m)\<lparr>calls := calls (com m) @ [ReadUntil crlf],
                           rx := after_expiry (rx (com m))\<rparr>\<rparr>)
      else
        (Inl PortNotOpenError,
         m\<lparr>com := (com m)\<lparr>calls := calls (com m) @ [ReadUntil crlf]\<rparr>\<rparr>))"
proof (cases "is_open (com m)")
  case True
  have "read_loop crlf [] (rx (com m)) = ([] @ pending (rx (com m)), after_expiry (rx (com m)))"
    using assms by (intro read_loop_timeout) (simp_all add: crlf_def)
  with True show ?thesis
    by (simp add: read_open)
next
  case False
  then show ?thesis by (simp add: read_closed)
qed

theorem read_without_terminator_witness:
  "read (session ''59'') =
     (Inr (lit ''59''),
      (session [])\<lparr>com := (com (session []))\<lparr>calls := [Open, ReadUntil crlf]\<rparr>\<rparr>)"
  using read_without_terminator [of "session ''59''"]
  by (simp add: eval_simps sublist_code)

text \<open>
  On a line that stays silent the terminator is never seen, and \<open>read\<close> returns the empty
  string as a result.
\<close>

theorem read_silent_counterexample:
  "read (session []) =
     (Inr [], (session [])\<lparr>com := (com (session []))\<lparr>calls := [Open, ReadUntil crlf]\<rparr>\<rparr>)"
  by (simp add: read_def utf8_encode_term_chars serial_read_until_def session_def
      utf8_decode_def)

section \<open>Queries\<close>

text \<open>
  C10. A query with the empty string as its message raises \<open>IndexError\<close> when it looks at
  the last character of the message, before anything is written to or read from the port:
  the driver and its port are as they were.
\<close>

theorem query_empty_message: "query U [] m = (Inl IndexError, m)"
  by (simp add: query_def)

text \<open>
  C1, as the code has it. For every message that is not empty: when the port is open, the
  message with its question mark has a UTF-8 encoding and the two lines read are UTF-8,
  \<open>query\<close> makes exactly three calls on the port, in this order: one write, of the frame
  of the message with its question mark, and two reads up to the terminator. It returns
  the pair of the first line read and the second line read, each decoded and stripped of
  trailing white space.
\<close>

theorem query_one_write_two_reads:
  assumes "msg \<noteq> []" and "is_open (com m)" and "frame U (qmark msg) = Some data"
    and "read_loop crlf [] (rx (com m)) = (line1, rest1)"
    and "read_loop crlf [] rest1 = (line2, rest2)"
    and "utf8_decode line1 = Some s1" and "utf8_decode line2 = Some s2"
  shows "query U msg m =
     (Inr \<lparr>statement = rstrip s1, response = rstrip s2\<rparr>,
      m\<lparr>com := (com m)\<lparr>calls := calls (com m) @ [Write data, ReadUntil crlf, ReadUntil crlf],
                        tx := tx (com m) @ data, rx := rest2\<rparr>\<rparr>)"
  using assms by (simp add: query_def write_msg_open read_open)

theorem query_one_write_two_reads_witness:
  "query ident (lit ''wave'') (session (''WAVE?'' @ crlf @ ''599.984 '' @ crlf)) =
     (Inr \<lparr>statement = lit ''WAVE?'', response = lit ''599.984''\<rparr>,
      (session [])\<lparr>com := (com (session []))
         \<lparr>calls := [Open, Write (''WAVE?'' @ crlf), ReadUntil crlf, ReadUntil crlf],
          tx := ''WAVE?'' @ crlf\<rparr>\<rparr>)"
  using query_one_write_two_reads [of "lit ''wave''"
      "session (''WAVE?'' @ crlf @ ''599.984 '' @ crlf)" ident "''WAVE?'' @ crlf"
      "''WAVE?'' @ crlf" "map Rx (''599.984 '' @ crlf)" "''599.984 '' @ crlf" "[]"
      "lit ''WAVE?'' @ [13, 10]" "lit ''599.984 '' @ [13, 10]"]
  by (simp add: eval_simps)

text \<open>
  Without these conditions \<open>query\<close> raises before its three calls are made or before it
  has a pair to return. A message that is a lone surrogate has no encoding, and nothing
  is written. On a closed port the write is refused and nothing is read. A first line
  that is the byte \<open>0xFF\<close> is not UTF-8, and the second read is not made. A second line
  that is the byte \<open>0xFF\<close> is read, and no pair is returned.
\<close>

theorem query_raises_counterexample:
  "query ident [0xD800] (session []) = (Inl UnicodeEncodeError, session [])
   \<and> query ident (lit ''wave'') (disconnect (session [])) =
       (Inl PortNotOpenError,
        (disconnect (session []))\<lparr>com := (com (disconnect (session [])))
           \<lparr>calls := [Open, Close, Write (''WAVE?'' @ crlf)]\<rparr>\<rparr>)
   \<and> query ident (lit ''wave'') (session ([CHR 0xFF] @ crlf @ ''599.984'' @ crlf)) =
       (Inl UnicodeDecodeError,
        (session (''599.984'' @ crlf))\<lparr>com := (com (session (''599.984'' @ crlf)))
           \<lparr>calls := [Open, Write (''WAVE?'' @ crlf), ReadUntil crlf],
            tx := ''WAVE?'' @ crlf\<rparr>\<rparr>)
   \<and> query ident (lit ''wave'') (session (''WAVE?'' @ crlf @ [CHR 0xFF] @ crlf)) =
       (Inl UnicodeDecodeError,
        (session [])\<lparr>com := (com (session []))
           \<lparr>calls := [Open, Write (''WAVE?'' @ crlf), ReadUntil crlf, ReadUntil crlf],
            tx := ''WAVE?'' @ crlf\<rparr>\<rparr>)"
  by (simp add: query_def write_msg_def serial_write_def read_def utf8_encode_term_chars
      serial_read_until_def disconnect_def serial_close_def is_cont_def second_ok_def
      eval_simps)

lemma query_write_effect:
  assumes "msg \<noteq> []" and "frame U (qmark msg) = Some data"
  shows "prefix (calls (com m) @ [Write data]) (calls (com (snd (query U msg m))))
   \<and> tx (com (snd (query U msg m))) =
       (if is_open (com m) then tx (com m) @ data else tx (com m))"
  using assms
  by (auto simp: query_def write_msg_def serial_write_def read_def utf8_encode_term_chars
      serial_read_until_def prefix_def split: prod.splits sum.splits option.splits)

text \<open>
  C7. The queries \<open>wave\<close> and \<open>WAVE?\<close> write the same bytes to the port. For both, the
  first call made on the port is the write of the frame \<open>WAVE?\<close> with its terminator, and
  on an open port exactly these bytes are added to what was sent; the two queries behave
  alike on every driver. The question mark is added only to a message that does not end
  in one, so adding it twice is adding it once.
\<close>

theorem wave_queries_same_bytes:
  "query U (lit ''wave'') m = query U (lit ''WAVE?'') m
   \<and> prefix (calls (com m) @ [Write (''WAVE?'' @ crlf)])
       (calls (com (snd (query U (lit ''wave'') m))))
   \<and> prefix (calls (com m) @ [Write (''WAVE?'' @ crlf)])
       (calls (com (snd (query U (lit ''WAVE?'') m))))
   \<and> tx (com (snd (query U (lit ''wave'') m))) =
       (if is_open (com m) then tx (com m) @ ''WAVE?'' @ crlf else tx (com m))
   \<and> tx (com (snd (query U (lit ''WAVE?'') m))) =
       (if is_open (com m) then tx (com m) @ ''WAVE?'' @ crlf else tx (com m))
   \<and> qmark (qmark msg) = qmark msg"
proof -
  have a: "frame U (qmark (lit ''wave'')) = Some (''WAVE?'' @ crlf)"
    by (simp add: eval_simps)
  have b: "frame U (qmark (lit ''WAVE?'')) = Some (''WAVE?'' @ crlf)"
    by (simp add: eval_simps)
  have "query U (lit ''wave'') m = query U (lit ''WAVE?'') m"
    by (simp add: query_def write_msg_def a b) (simp add: lit_def)
  moreover have "qmark (qmark msg) = qmark msg"
    by (simp add: qmark_def lit_def)
  moreover have "lit ''wave'' \<noteq> []" and "lit ''WAVE?'' \<noteq> []"
    by (simp_all add: lit_def)
  ultimately show ?thesis
    using query_write_effect [OF _ a, of m] query_write_effect [OF _ b, of m] by simp
qed

theorem wave_queries_same_bytes_witness:
  "tx (com (snd (query ident (lit ''wave'') (session (''WAVE?'' @ crlf @ ''599.984'' @ crlf)))))
     = ''WAVE?'' @ crlf
   \<and> tx (com (snd (query ident (lit ''WAVE?'')
        (session (''WAVE?'' @ crlf @ ''599.984'' @ crlf))))) = ''WAVE?'' @ crlf"
  using wave_queries_same_bytes [of ident "session (''WAVE?'' @ crlf @ ''599.984'' @ crlf)"]
  by (simp add: session_def)

section \<open>Commands\<close>

lemma command_message_args:
  "command_message str_of cmd args =
     (if args = [] then cmd @ lit '' '' else spec_command_message str_of cmd args)"
  by (cases args) (simp_all add: command_message_def spec_command_message_def)

text \<open>
  C5, as the code has it. The message of a command is the name, one space, and the string
  forms of the arguments joined with single spaces. With one argument or more this is the
  name and the arguments joined with single spaces; with no argument it is the name
  followed by one space. When the port is open, the message has a UTF-8 encoding and the
  line read is UTF-8, \<open>command\<close> writes the frame of this message once, then reads once
  up to the terminator, and returns the line read, decoded and stripped of trailing white
  space.
\<close>

theorem command_one_write_one_read:
  assumes "is_open (com m)" and "frame U (command_message str_of cmd args) = Some data"
    and "read_loop crlf [] (rx (com m)) = (line, rest)"
    and "utf8_decode line = Some s"
  shows "command U str_of cmd args m =
     (Inr (rstrip s),
      m\<lparr>com := (com m)\<lparr>calls := calls (com m) @ [Write data, ReadUntil crlf],
                        tx := tx (com m) @ data, rx := rest\<rparr>\<rparr>)
   \<and> command_message str_of cmd args =
     (if args = [] then cmd @ lit '' '' else spec_command_message str_of cmd args)"
  using assms by (simp add: command_def write_msg_open read_open command_message_args)

theorem command_one_write_one_read_witness:
  "command ident id (lit ''gowave'') [lit ''600.000''] (session (''GOWAVE 600.000'' @ crlf)) =
     (Inr (lit ''GOWAVE 600.000''),
      (session [])\<lparr>com := (com (session []))
         \<lparr>calls := [Open, Write (''GOWAVE 600.000'' @ crlf), ReadUntil crlf],
          tx := ''GOWAVE 600.000'' @ crlf\<rparr>\<rparr>)
   \<and> command_message id (lit ''gowave'') [lit ''600.000''] = lit ''gowave 600.000''"
  using command_one_write_one_read [of "session (''GOWAVE 600.000'' @ crlf)" ident id
      "lit ''gowave''" "[lit ''600.000'']" "''GOWAVE 600.000'' @ crlf"
      "''GOWAVE 600.000'' @ crlf" "[]" "lit ''GOWAVE 600.000'' @ [13, 10]"]
  by (simp add: eval_simps command_message_def spec_command_message_def)

text \<open>
  With no argument the message is not the name alone: \<open>abort\<close> sends \<open>ABORT\<close>, a space and
  the terminator. Without the conditions \<open>command\<close> raises: an argument that is a lone
  surrogate has no encoding and nothing is written, on a closed port the write is refused
  and nothing is read, and a line that is the byte \<open>0xFF\<close> is read and not returned.
\<close>

theorem command_no_args_counterexample:
  "command_message id (lit ''abort'') [] \<noteq> spec_command_message id (lit ''abort'') []
   \<and> tx (com (snd (command ident id (lit ''abort'') [] (session (''ABORT '' @ crlf)))))
     = ''ABORT '' @ crlf
   \<and> command ident id (lit ''grat'') [[0xD800]] (session []) =
       (Inl UnicodeEncodeError, session [])
   \<and> command ident id (lit ''abort'') [] (disconnect (session [])) =
       (Inl PortNotOpenError,
        (disconnect (session []))\<lparr>com := (com (disconnect (session [])))
           \<lparr>calls := [Open, Close, Write (''ABORT '' @ crlf)]\<rparr>\<rparr>)
   \<and> command ident id (lit ''abort'') [] (session ([CHR 0xFF] @ crlf)) =
       (Inl UnicodeDecodeError,
        (session [])\<lparr>com := (com (session []))
           \<lparr>calls := [Open, Write (''ABORT '' @ crlf), ReadUntil crlf],
            tx := ''ABORT '' @ crlf\<rparr>\<rparr>)"
  by (simp add: command_def write_msg_def serial_write_def read_def utf8_encode_term_chars
      serial_read_until_def command_message_def spec_command_message_def disconnect_def
      serial_close_def eval_simps)

section \<open>The shutter and the grating\<close>

lemma rstrip_eq_C:
  "(rstrip s = lit ''C'') = (\<exists>ws. s = lit ''C'' @ ws \<and> list_all isspace ws)"
proof
  assume "rstrip s = lit ''C''"
  then have "dropWhile isspace (rev s) = [67]"
    by (simp add: rstrip_def lit_def rev_swap)
  then have "rev s = takeWhile isspace (rev s) @ [67]"
    by (simp add: dropWhile_eq_Cons_conv)
  then have "s = lit ''C'' @ rev (takeWhile isspace (rev s))"
    by (simp add: lit_def rev_swap)
  moreover have "list_all isspace (rev (takeWhile isspace (rev s)))"
    by (auto simp: list_all_iff dest: set_takeWhileD)
  ultimately show "\<exists>ws. s = lit ''C'' @ ws \<and> list_all isspace ws"
    by blast
next
  assume "\<exists>ws. s = lit ''C'' @ ws \<and> list_all isspace ws"
  then obtain ws where s: "s = 67 # ws" and ws: "list_all isspace ws"
    by (auto simp: lit_def)
  from ws have "dropWhile isspace (rev ws @ [67]) = dropWhile isspace [67]"
    by (intro dropWhile_append2) (simp add: list_all_iff)
  then show "rstrip s = lit ''C''"
    by (simp add: s rstrip_def lit_def isspace_def)
qed

text \<open>
  C6, as the code has it. On an open port, when the two lines read for the query
  \<open>shutter\<close> are UTF-8, \<open>shuttered\<close> returns \<open>True\<close> exactly when the second line,
  stripped of trailing white space, is the string \<open>C\<close>: that is, when the line as
  received is \<open>C\<close> followed by white space only, the terminator included. For every other
  second line, the empty one too, it returns \<open>False\<close>.
\<close>

theorem shuttered_iff_line_C:
  assumes "is_open (com m)"
    and "read_loop crlf [] (rx (com m)) = (line1, rest1)"
    and "read_loop crlf [] rest1 = (line2, rest2)"
    and "utf8_decode line1 = Some s1" and "utf8_decode line2 = Some s2"
  shows "shuttered U m =
     (Inr (rstrip s2 = lit ''C''),
      m\<lparr>com := (com m)
         \<lparr>calls := calls (com m) @ [Write (''SHUTTER?'' @ crlf), ReadUntil crlf, ReadUntil crlf],
          tx := tx (com m) @ ''SHUTTER?'' @ crlf, rx := rest2\<rparr>\<rparr>)
   \<and> (rstrip s2 = lit ''C'') = (\<exists>ws. s2 = lit ''C'' @ ws \<and> list_all isspace ws)"
proof -
  have "frame U (qmark (lit ''shutter'')) = Some (''SHUTTER?'' @ crlf)"
    by (simp add: eval_simps)
  moreover have "lit ''shutter'' \<noteq> []"
    by (simp add: lit_def)
  ultimately show ?thesis
    using assms by (simp add: shuttered_def query_def write_msg_open read_open rstrip_eq_C)
qed

theorem shuttered_iff_line_C_witness:
  "fst (shuttered ident (session (''SHUTTER?'' @ crlf @ ''C'' @ crlf))) = Inr True
   \<and> fst (shuttered ident (session (''SHUTTER?'' @ crlf @ ''O'' @ crlf))) = Inr False
   \<and> fst (shuttered ident (session (''SHUTTER?'' @ crlf @ crlf))) = Inr False"
  using shuttered_iff_line_C [of "session (''SHUTTER?'' @ crlf @ ''C'' @ crlf)"
      "''SHUTTER?'' @ crlf" "map Rx (''C'' @ crlf)" "''C'' @ crlf" "[]"
      "lit ''SHUTTER?'' @ [13, 10]" "lit ''C'' @ [13, 10]" ident]
    shuttered_iff_line_C [of "session (''SHUTTER?'' @ crlf @ ''O'' @ crlf)"
      "''SHUTTER?'' @ crlf" "map Rx (''O'' @ crlf)" "''O'' @ crlf" "[]"
      "lit ''SHUTTER?'' @ [13, 10]" "lit ''O'' @ [13, 10]" ident]
    shuttered_iff_line_C [of "session (''SHUTTER?'' @ crlf @ crlf)"
      "''SHUTTER?'' @ crlf" "map Rx crlf" "crlf" "[]"
      "lit ''SHUTTER?'' @ [13, 10]" "[13, 10]" ident]
  by (simp add: eval_simps)

text \<open>
  The line received need not be the string \<open>C\<close> for \<open>shuttered\<close> to return \<open>True\<close>: the
  line \<open>C\<close>, two spaces and the terminator does it. And \<open>shuttered\<close> does not return
  \<open>False\<close> for every other line: on a second line that is the byte \<open>0xFF\<close>, and on a
  closed port, it raises.
\<close>

theorem shuttered_raw_line_counterexample:
  "fst (shuttered ident (session (''SHUTTER?'' @ crlf @ ''C  '' @ crlf))) = Inr True
   \<and> utf8_decode (''C  '' @ crlf) = Some (lit ''C  '' @ [13, 10])
   \<and> lit ''C  '' @ [13, 10] \<noteq> lit ''C''
   \<and> fst (shuttered ident (session (''SHUTTER?'' @ crlf @ [CHR 0xFF] @ crlf)))
     = Inl UnicodeDecodeError
   \<and> fst (shuttered ident (disconnect (session []))) = Inl PortNotOpenError"
  by (simp add: shuttered_def query_def write_msg_def serial_write_def read_def
      utf8_encode_term_chars serial_read_until_def disconnect_def serial_close_def
      eval_simps)

lemma grating_no_result: "fst (grating U m) \<noteq> Inr d"
  by (simp add: grating_def split_of_def split: prod.splits sum.splits)

text \<open>
  C4 does not hold of the code. \<open>grating\<close> calls \<open>split\<close> on the named tuple that \<open>query\<close>
  returns and not on its field \<open>response\<close>. With the device answering the query with
  \<open>1,1200,BLAZE\<close>, \<open>grating\<close> makes the query and then raises \<open>AttributeError\<close>.
\<close>

theorem grating_raises_AttributeError:
  "grating ident (session (''GRAT?'' @ crlf @ ''1,1200,BLAZE'' @ crlf)) =
     (Inl AttributeError,
      (session [])\<lparr>com := (com (session []))
         \<lparr>calls := [Open, Write (''GRAT?'' @ crlf), ReadUntil crlf, ReadUntil crlf],
          tx := ''GRAT?'' @ crlf\<rparr>\<rparr>)"
  by (simp add: grating_def split_of_def query_def write_msg_def serial_write_def read_def
      utf8_encode_term_chars serial_read_until_def eval_simps)

section \<open>Methods called on a closed port\<close>

lemma ascii_Nil [simp]: "ascii []"
  by (simp add: ascii_def)

lemma ascii_Cons [simp]: "ascii (c # s) = (c < 128 \<and> ascii s)"
  by (simp add: ascii_def)

lemma ascii_append [simp]: "ascii (a @ b) = (ascii a \<and> ascii b)"
  by (simp add: ascii_def)

lemma utf8_encode_ascii: "ascii t \<Longrightarrow> utf8_encode t = Some (ascii_bytes t)"
  by (induction t) (simp_all add: ascii_bytes_def utf8_cp_def)

lemma ascii_upper: "ascii s \<Longrightarrow> ascii (upper U s)"
  by (induction s) (auto simp: upper_def upper_cp_def)

lemma frame_ascii: "ascii msg \<Longrightarrow> frame U msg = Some (ascii_bytes (upper U msg) @ crlf)"
  by (simp add: frame_eq utf8_encode_ascii ascii_upper)

lemma ascii_bytes_append [simp]: "ascii_bytes (a @ b) = ascii_bytes a @ ascii_bytes b"
  by (simp add: ascii_bytes_def)

lemma digits_range: "list_all (\<lambda>c. 48 \<le> c \<and> c < 58) (digits n)"
proof (induction n rule: digits.induct)
  case (1 n)
  have "n mod 10 < 10" by simp
  then have "48 + n mod 10 < 58" by linarith
  with 1 show ?case
    by (subst digits.simps) simp
qed

lemma str_int_range: "list_all (\<lambda>c. 45 \<le> c \<and> c < 58) (str_int i)"
proof -
  have "list_all (\<lambda>c. 45 \<le> c \<and> c < 58) (digits n)" for n
    using digits_range [of n] by (fastforce simp: list_all_iff)
  then show ?thesis
    by (simp add: str_int_def)
qed

lemma ascii_str_int [simp]: "ascii (str_int i)"
  using str_int_range [of i] by (simp add: ascii_def list_all_iff) force

lemma upper_str_int [simp]: "upper U (str_int i) = str_int i"
proof -
  have "list_all (\<lambda>c. 45 \<le> c \<and> c < 58) s \<Longrightarrow> upper U s = s" for s
    by (induction s) (simp_all add: upper_def upper_cp_def)
  then show ?thesis
    using str_int_range by blast
qed

lemma str_int_nonempty [simp]: "str_int i \<noteq> []"
  by (simp add: str_int_def) (subst digits.simps, simp)

lemma query_closed:
  assumes "\<not> is_open (com m)" and "msg \<noteq> []" and "ascii msg"
  shows "query U msg m = refused m (ascii_bytes (upper U (qmark msg)) @ crlf)"
proof -
  from assms(3) have "ascii (qmark msg)"
    by (simp add: qmark_def lit_def)
  then have "frame U (qmark msg) = Some (ascii_bytes (upper U (qmark msg)) @ crlf)"
    by (rule frame_ascii)
  with assms(1,2) show ?thesis
    by (simp add: query_def write_msg_closed refused_def)
qed

lemma command_closed:
  assumes "\<not> is_open (com m)" and "ascii (command_message str_of cmd args)"
  shows "command U str_of cmd args m =
     refused m (ascii_bytes (upper U (command_message str_of cmd args)) @ crlf)"
  using assms by (simp add: command_def write_msg_closed frame_ascii refused_def)

text \<open>The frames of the messages that the high level methods send first.\<close>

lemma first_frames:
  "ascii_bytes (upper U (qmark (lit ''info''))) = ''INFO?''"
  "ascii_bytes (upper U (qmark (lit ''wave''))) = ''WAVE?''"
  "ascii_bytes (upper U (qmark (lit ''grat''))) = ''GRAT?''"
  "ascii_bytes (upper U (qmark (lit ''shutter''))) = ''SHUTTER?''"
  "ascii_bytes (upper U (qmark (lit ''outport''))) = ''OUTPORT?''"
  "ascii_bytes (upper U (command_message id (lit ''abort'') [])) = ''ABORT ''"
  "ascii_bytes (upper U (command_message id (lit ''shutter'') [lit ''C''])) = ''SHUTTER C''"
  "ascii_bytes (upper U (command_message id (lit ''shutter'') [lit ''O''])) = ''SHUTTER O''"
  by (simp_all add: command_message_def ascii_bytes_def lit_def qmark_def upper_def
      upper_cp_def char_of_eq_iff)

lemma first_frames_args:
  "ascii_bytes (upper U (command_message id (lit ''gowave'') [x])) =
     ''GOWAVE '' @ ascii_bytes (upper U x)"
  "ascii_bytes (upper U (command_message id (lit ''grat'') [str_int g])) =
     ''GRAT '' @ ascii_bytes (str_int g)"
  "ascii_bytes (upper U (command_message id (lit ''outport'') [str_int g])) =
     ''OUTPORT '' @ ascii_bytes (str_int g)"
  "ascii_bytes (upper U (command_message id (lit ''slit'' @ str_int n @ lit ''microns'')
      [str_int g])) =
     ''SLIT'' @ ascii_bytes (str_int n) @ ''MICRONS '' @ ascii_bytes (str_int g)"
  "ascii_bytes (upper U (qmark (lit ''slit'' @ str_int n @ lit ''microns''))) =
     ''SLIT'' @ ascii_bytes (str_int n) @ ''MICRONS?''"
  by (simp_all add: command_message_def upper_append qmark_def)
    (simp_all add: ascii_bytes_def lit_def upper_def upper_cp_def char_of_eq_iff)

lemma ascii_messages [simp]:
  "ascii (lit ''info'')" "ascii (lit ''wave'')" "ascii (lit ''grat'')"
  "ascii (lit ''shutter'')" "ascii (lit ''outport'')"
  "ascii (lit ''slit'')" "ascii (lit ''microns'')"
  "ascii (command_message id (lit ''abort'') [])"
  "ascii (command_message id (lit ''shutter'') [lit ''C''])"
  "ascii (command_message id (lit ''shutter'') [lit ''O''])"
  "ascii (command_message id (lit ''grat'') [str_int g])"
  "ascii (command_message id (lit ''outport'') [str_int g])"
  "ascii (command_message id (lit ''slit'' @ str_int n @ lit ''microns'') [str_int g])"
  "ascii x \<Longrightarrow> ascii (command_message id (lit ''gowave'') [x])"
  by (simp_all add: command_message_def) (simp_all add: lit_def)

lemma lits_nonempty [simp]:
  "lit ''info'' \<noteq> []" "lit ''wave'' \<noteq> []" "lit ''grat'' \<noteq> []" "lit ''shutter'' \<noteq> []"
  "lit ''outport'' \<noteq> []" "lit ''slit'' \<noteq> []"
  by (simp_all add: lit_def)

lemma info_closed: "\<not> is_open (com m) \<Longrightarrow> info U m = refused m (''INFO?'' @ crlf)"
  by (simp add: info_def query_closed first_frames) (simp add: refused_def)

lemma position_closed:
  "\<not> is_open (com m) \<Longrightarrow> position U pf m = refused m (''WAVE?'' @ crlf)"
  by (simp add: position_def query_closed first_frames) (simp add: refused_def)

lemma goto_closed:
  "\<not> is_open (com m) \<Longrightarrow> ascii (fmt w) \<Longrightarrow>
   goto U fmt pf w m = refused m (''GOWAVE '' @ ascii_bytes (upper U (fmt w)) @ crlf)"
  by (simp add: goto_def command_closed first_frames_args) (simp add: refused_def)

lemma abort_closed: "\<not> is_open (com m) \<Longrightarrow> abort U m = refused m (''ABORT '' @ crlf)"
  by (simp add: abort_def command_closed first_frames) (simp add: refused_def)

lemma grating_closed: "\<not> is_open (com m) \<Longrightarrow> grating U m = refused m (''GRAT?'' @ crlf)"
  by (simp add: grating_def query_closed first_frames) (simp add: refused_def)

lemma set_grating_closed:
  "\<not> is_open (com m) \<Longrightarrow>
   set_grating U g m = refused m (''GRAT '' @ ascii_bytes (str_int g) @ crlf)"
  by (simp add: set_grating_def command_closed first_frames_args) (simp add: refused_def)

lemma shuttered_closed:
  "\<not> is_open (com m) \<Longrightarrow> shuttered U m = refused m (''SHUTTER?'' @ crlf)"
  by (simp add: shuttered_def query_closed first_frames) (simp add: refused_def)

lemma shutter_closed:
  "\<not> is_open (com m) \<Longrightarrow>
   shutter U cl m = refused m (''SHUTTER '' @ (if cl then ''C'' else ''O'') @ crlf)"
  by (cases cl) (simp_all add: shutter_def command_closed first_frames, simp_all add: refused_def)

lemma outport_closed:
  "\<not> is_open (com m) \<Longrightarrow> outport U pint m = refused m (''OUTPORT?'' @ crlf)"
  by (simp add: outport_def query_closed first_frames) (simp add: refused_def)

lemma set_outport_closed:
  "\<not> is_open (com m) \<Longrightarrow>
   set_outport U p m = refused m (''OUTPORT '' @ ascii_bytes (str_int p) @ crlf)"
  by (simp add: set_outport_def command_closed first_frames_args) (simp add: refused_def)

lemma slit_width_closed:
  "\<not> is_open (com m) \<Longrightarrow>
   slit_width U pint slit width m =
     refused m (''SLIT'' @ ascii_bytes (str_int slit)
       @ (case width of None \<Rightarrow> ''MICRONS?'' | Some w \<Rightarrow> ''MICRONS '' @ ascii_bytes (str_int w))
       @ crlf)"
  by (cases width)
    (simp_all add: slit_width_def slit_query_def query_closed command_closed
      first_frames_args, simp_all add: refused_def)

text \<open>
  C3, as the code has it. The driver keeps no state of its own and has no error of its
  own for a closed port: every high level method goes on to its first write. On a closed
  port that write, of the frame of the first message of the method, is the one call made
  on the port; the port refuses it with \<open>PortNotOpenError\<close>, which the method raises. No
  byte is sent, no read is made and nothing else changes. For \<open>goto\<close> the formatted
  wavelength is ASCII text.
\<close>

theorem closed_port_refuses_first_write:
  assumes "\<not> is_open (com m)" and "ascii (fmt3f w)"
  shows "info U m = refused m (''INFO?'' @ crlf)
   \<and> position U py_float m = refused m (''WAVE?'' @ crlf)
   \<and> goto U fmt3f py_float w m =
       refused m (''GOWAVE '' @ ascii_bytes (upper U (fmt3f w)) @ crlf)
   \<and> abort U m = refused m (''ABORT '' @ crlf)
   \<and> grating U m = refused m (''GRAT?'' @ crlf)
   \<and> set_grating U g m = refused m (''GRAT '' @ ascii_bytes (str_int g) @ crlf)
   \<and> shuttered U m = refused m (''SHUTTER?'' @ crlf)
   \<and> shutter U cl m = refused m (''SHUTTER '' @ (if cl then ''C'' else ''O'') @ crlf)
   \<and> outport U py_int m = refused m (''OUTPORT?'' @ crlf)
   \<and> set_outport U p m = refused m (''OUTPORT '' @ ascii_bytes (str_int p) @ crlf)
   \<and> slit_width U py_int slit width m =
       refused m (''SLIT'' @ ascii_bytes (str_int slit)
         @ (case width of
              None \<Rightarrow> ''MICRONS?''
            | Some wd \<Rightarrow> ''MICRONS '' @ ascii_bytes (str_int wd))
         @ crlf)"
  using assms
  by (simp only: info_closed position_closed goto_closed abort_closed grating_closed
      set_grating_closed shuttered_closed shutter_closed outport_closed set_outport_closed
      slit_width_closed simp_thms)

theorem closed_port_refuses_first_write_witness:
  "goto ident (\<lambda>x. lit ''600.000'') (\<lambda>s. None) (600 :: real) (disconnect (session [])) =
     (Inl PortNotOpenError,
      (disconnect (session []))\<lparr>com := (com (disconnect (session [])))
         \<lparr>calls := [Open, Close, Write (''GOWAVE 600.000'' @ crlf)]\<rparr>\<rparr>)
   \<and> slit_width ident (\<lambda>s. None) 1 (Some 50) (disconnect (session [])) =
     (Inl PortNotOpenError,
      (disconnect (session []))\<lparr>com := (com (disconnect (session [])))
         \<lparr>calls := [Open, Close, Write (''SLIT1MICRONS 50'' @ crlf)]\<rparr>\<rparr>)"
  using closed_port_refuses_first_write [of "disconnect (session [])"
      "\<lambda>x. lit ''600.000''" "600 :: real" ident "\<lambda>s. None" 1 True "\<lambda>s. None" 1 1 "Some 50"]
  by (simp add: refused_def disconnect_def serial_close_def session_def lit_def
      ascii_bytes_def str_int_def digits.simps upper_def upper_cp_def ident_def crlf_def
      char_of_eq_iff)

text \<open>
  \<open>info\<close> on a driver that was disconnected: the write of the frame \<open>INFO?\<close> is called on
  the port, and the error raised is the port's.
\<close>

theorem info_closed_port_counterexample:
  "info ident (disconnect (session [])) =
     (Inl PortNotOpenError,
      (disconnect (session []))\<lparr>com := (com (disconnect (session [])))
         \<lparr>calls := [Open, Close, Write (''INFO?'' @ crlf)]\<rparr>\<rparr>)"
  by (simp add: info_def query_def write_msg_def serial_write_def disconnect_def
      serial_close_def eval_simps)

section \<open>The life of the port\<close>

text \<open>
  C8. Constructing the driver opens the port, with the timeout that was given, when
  the port can be opened. Both \<open>__del__\<close> and \<open>disconnect\<close> close it: after \<open>__del__\<close>
  the port is closed whether or not \<open>disconnect\<close> was called before.
\<close>

theorem port_opened_at_init_closed_at_del:
  assumes "present dev"
  shows "init p t dev =
       Inr \<lparr>port = p,
            com = \<lparr>portname = p, timeout = t, is_open = True, calls = [Open], tx = [],
                   rx = incoming dev\<rparr>\<rparr>
   \<and> \<not> is_open (com (del m)) \<and> calls (com (del m)) = calls (com m) @ [Close]
   \<and> \<not> is_open (com (disconnect m))
   \<and> \<not> is_open (com (del (disconnect m)))"
  using assms by (simp add: init_def Serial_def del_def disconnect_def serial_close_def)

theorem port_opened_at_init_closed_at_del_witness:
  "init (lit ''COM9'') 3 \<lparr>present = True, incoming = []\<rparr> = Inr (session [])
   \<and> \<not> is_open (com (del (session [])))"
  using port_opened_at_init_closed_at_del [of "\<lparr>present = True, incoming = []\<rparr>"
      "lit ''COM9''" 3 "session []"]
  by (simp add: session_def)

end
